theory Spec2Isabelle
  imports Complex_Main
begin

section \<open>GPS broadcast ephemeris: satellite position and clock correction\<close>

text \<open>
  A shallow embedding of \<^verbatim>\<open>src/gpsnav.cpp\<close> (\<^verbatim>\<open>NavDataFrame::gps_ecef\<close>,
  \<^verbatim>\<open>NavDataFrame::gps_dtsv\<close>) and of the template \<^verbatim>\<open>gps_stateNclock\<close> of
  \<^verbatim>\<open>src/navrnx.hpp\<close>.

  Numbers. A C++ \<^verbatim>\<open>double\<close> is modelled as a \<^typ>\<open>real\<close>: arithmetic is exact, there
  is no rounding, no NaN and no infinity, and the decimal literals of the source stand for
  their exact decimal values. \<^verbatim>\<open>std::sin\<close>, \<^verbatim>\<open>std::cos\<close>, \<^verbatim>\<open>std::sqrt\<close> and
  \<^verbatim>\<open>std::acos\<close> are the functions \<^const>\<open>sin\<close>, \<^const>\<open>cos\<close>, \<^const>\<open>sqrt\<close> and
  \<^const>\<open>arccos\<close> of the library. Where the C functions do not return a number (the
  square root of a negative, \<^verbatim>\<open>acos\<close> outside \<open>[-1, 1]\<close>, a division by zero) the
  functions of the library return some real: the model describes the runs of the code in
  which every intermediate value is a finite number. A record with \<^verbatim>\<open>data__[10] = 0\<close>
  (\<open>\<surd>A = 0\<close>) makes the source divide by zero in the mean motion and is outside it; so
  are, past the Kepler loop of \<^verbatim>\<open>gps_ecef\<close>, the records with an eccentricity above 1.
  The statements below about the true anomaly take \<open>e = 0\<close> or \<open>0 \<le> e < 1\<close>; those
  at a record with \<open>e \<ge> 1\<close> are about the loop and the status only.
  The loop counter \<^verbatim>\<open>int i\<close> never exceeds 1001, so it is an \<^typ>\<open>int\<close>.

  Effects. Both functions are \<^verbatim>\<open>const noexcept\<close> and write only through their output
  parameters. An output parameter is passed in with the value its target holds before the
  call and returned with the value it holds afterwards; the optional pointers
  \<^verbatim>\<open>Ek_ptr\<close> and \<^verbatim>\<open>Ein\<close> are \<^typ>\<open>real option\<close>, \<^const>\<open>None\<close> for \<^verbatim>\<open>nullptr\<close>.
  The cell behind \<^verbatim>\<open>Ek_ptr\<close> is taken to lie outside the array \<^verbatim>\<open>state\<close>. The returned
  \<^verbatim>\<open>int\<close> is the status. The line the debug build prints to \<^verbatim>\<open>std::cerr\<close> is not
  modelled.
\<close>

subsection \<open>The navigation record\<close>

text \<open>
  \<^verbatim>\<open>ngpt::datetime<T>\<close> comes from the external library ggdatetime; of a time stamp the
  code below reads the Modified Julian Day (\<^verbatim>\<open>mjd()\<close>) and the seconds of day
  (\<^verbatim>\<open>sec().to_fractional_seconds()\<close>).
\<close>

record datetime =
  mjd :: int
  sec :: real

text \<open>
  \<^verbatim>\<open>class NavDataFrame\<close>: the PRN, the time of clock and the block \<^verbatim>\<open>double data__[31]\<close>,
  here a list read with \<^term>\<open>xs ! i\<close> at the constant indices \<open>0..28\<close> of the source.
  The fields \<^verbatim>\<open>prn__\<close>, \<^verbatim>\<open>toc__\<close> and \<^verbatim>\<open>data__\<close> are \<open>nav_prn\<close>, \<open>nav_toc\<close> and
  \<open>nav_data\<close> (a name may not end in an underscore here). The field \<^verbatim>\<open>sys__\<close> has a
  type declared outside the sources at hand and is read by none of the functions modelled.
\<close>

record NavDataFrame =
  nav_prn :: int
  nav_toc :: datetime
  nav_data :: "real list"

subsection \<open>Constants of \<^verbatim>\<open>gpsnav.cpp\<close>\<close>

definition mi_gps :: real where
  "mi_gps = 398600500000000"

definition OMEGAE_dot :: real where
  "OMEGAE_dot = 72921151467 / 10 ^ 15"

text \<open>The functions below do not use \<^verbatim>\<open>SEC_IN_WEEK\<close>: they write \<^verbatim>\<open>604800e0\<close>.\<close>

definition SEC_IN_WEEK :: real where
  "SEC_IN_WEEK = 604800"

definition F_CLOCK :: real where
  "F_CLOCK = - (4442807633 / 10 ^ 19)"

definition LIMIT :: real where
  "LIMIT = 1 / 10 ^ 14"

subsection \<open>Library functions\<close>

text \<open>
  \<^verbatim>\<open>std::atan2(y, x)\<close> as the C standard defines it on finite arguments: the angle of the
  point \<open>(x, y)\<close> in \<open>(-\<pi>, \<pi>]\<close>, and \<open>0\<close> at the origin.
\<close>

definition atan2 :: "real \<Rightarrow> real \<Rightarrow> real" where
  "atan2 y x =
     (if 0 < x then arctan (y / x)
      else if x < 0 then (if 0 \<le> y then arctan (y / x) + pi else arctan (y / x) - pi)
      else if 0 < y then pi / 2
      else if y < 0 then - (pi / 2)
      else 0)"

subsection \<open>The Kepler loop\<close>

text \<open>
  Lines 99--102 and 194--197, the same text in both functions:
  \<^verbatim>\<open>for (i=0; std::abs(E-Ek)>LIMIT && i<1001; i++) { Ek = E; E = std::sin(Ek)*e+Mk; }\<close>
  The state is \<open>(i, E, Ek)\<close>; the loop is entered with \<open>i = 0\<close>, \<open>E = Mk\<close> and
  \<open>Ek = 0\<close>.
\<close>

function kepler_loop :: "real \<Rightarrow> real \<Rightarrow> int \<Rightarrow> real \<Rightarrow> real \<Rightarrow> int \<times> real \<times> real" where
  "kepler_loop e Mk i E Ek =
     (if \<bar>E - Ek\<bar> > LIMIT \<and> i < 1001
      then kepler_loop e Mk (i + 1) (sin E * e + Mk) E
      else (i, E, Ek))"
  by pat_completeness auto
termination
  by (relation "measure (\<lambda>(e, Mk, i, E, Ek). nat (1001 - i))") auto

text \<open>
  Lines 95--104 and 191--199: the seed, the loop, the test \<^verbatim>\<open>if (i>=1000) return 1;\<close>
  and \<^verbatim>\<open>Ek = E\<close>. \<open>Inl 1\<close> is the early return with status 1, \<open>Inr E\<close> the
  eccentric anomaly the function goes on with.
\<close>

definition kepler_solve :: "real \<Rightarrow> real \<Rightarrow> int + real" where
  "kepler_solve e Mk =
     (case kepler_loop e Mk 0 Mk 0 of
        (i, E, Ek) \<Rightarrow> if i \<ge> 1000 then Inl 1 else Inr E)"

text \<open>The value of \<^verbatim>\<open>i\<close> when the loop ends: the number of iterations made.\<close>

definition kepler_count :: "real \<Rightarrow> real \<Rightarrow> int" where
  "kepler_count e Mk = fst (kepler_loop e Mk 0 Mk 0)"

subsection \<open>\<^verbatim>\<open>NavDataFrame::gps_ecef\<close>\<close>

text \<open>
  Lines 82--90. The build flag \<^verbatim>\<open>DEBUG\<close> is a parameter. \<^const>\<open>None\<close> is the
  \<^verbatim>\<open>return -1\<close> of the debug build; \<open>Some tk\<close> is the value of \<^verbatim>\<open>tk\<close> at line 91.
\<close>

definition ecef_tk :: "bool \<Rightarrow> real \<Rightarrow> real \<Rightarrow> real option" where
  "ecef_tk DEBUG toe_sec t_sec =
     (let tk = t_sec - toe_sec in
      if DEBUG then
        (if tk < - 302400 \<or> tk > 302400 then None
         else
           let tk = (if tk > 302400 then tk - 604800 else tk);
               tk = (if tk < - 302400 then tk + 604800 else tk)
           in Some tk)
      else Some tk)"

text \<open>Lines 80, 81, 91, 92 (and 187--190): the mean anomaly \<^verbatim>\<open>Mk\<close> at \<^verbatim>\<open>tk\<close>.\<close>

definition mean_anomaly :: "NavDataFrame \<Rightarrow> real \<Rightarrow> real" where
  "mean_anomaly nav tk =
     (let A = nav_data nav ! 10 * nav_data nav ! 10;
          n0 = sqrt (mi_gps / (A * A * A));
          n = n0 + nav_data nav ! 5
      in nav_data nav ! 6 + n * tk)"

text \<open>Lines 108--113: the true anomaly \<^verbatim>\<open>vk\<close> from \<^verbatim>\<open>E\<close>.\<close>

definition true_anomaly :: "real \<Rightarrow> real \<Rightarrow> real" where
  "true_anomaly e E =
     (let sinE = sin E;
          cosE = cos E;
          ecosEm1 = 1 - e * cosE;
          vk_ar = (sqrt (1 - e * e) * sinE) / ecosEm1;
          vk_pr = (cosE - e) / ecosEm1
      in atan2 vk_ar vk_pr)"

text \<open>Lines 114--115: \<^verbatim>\<open>Ek\<close> computed again from \<^verbatim>\<open>vk\<close>.\<close>

definition acos_anomaly :: "real \<Rightarrow> real \<Rightarrow> real" where
  "acos_anomaly e vk = (let cosVk = cos vk in arccos ((e + cosVk) / (1 + e * cosVk)))"

text \<open>Lines 117--143: the three coordinates written to \<^verbatim>\<open>state[0..2]\<close>.\<close>

definition ecef_xyz :: "NavDataFrame \<Rightarrow> real \<Rightarrow> real \<Rightarrow> real \<Rightarrow> real \<times> real \<times> real" where
  "ecef_xyz nav tk vk Ek =
     (let d = nav_data nav;
          A = d ! 10 * d ! 10;
          e = d ! 8;
          Fk = vk + d ! 17;
          sin2F = sin (2 * Fk);
          cos2F = cos (2 * Fk);
          duk = d ! 9 * sin2F + d ! 7 * cos2F;
          drk = d ! 4 * sin2F + d ! 16 * cos2F;
          dik = d ! 14 * sin2F + d ! 12 * cos2F;
          uk = Fk + duk;
          rk = A * (1 - e * cos Ek) + drk;
          ik = d ! 15 + dik + d ! 19 * tk;
          xk_dot = rk * cos uk;
          yk_dot = rk * sin uk;
          omega_k = d ! 13 + (d ! 18 - OMEGAE_dot) * tk - OMEGAE_dot * d ! 11;
          sinOk = sin omega_k;
          cosOk = cos omega_k;
          cosik = cos ik
      in (xk_dot * cosOk - yk_dot * sinOk * cosik,
          xk_dot * sinOk + yk_dot * cosOk * cosik,
          yk_dot * sin ik))"

text \<open>
  The function. \<open>state\<close> is the caller's array (of length at least 3, as the source
  requires) and \<open>Ek_ptr\<close> the optional cell, both with their contents before the call;
  the result is the status, the array and the cell after the call.
\<close>

definition gps_ecef ::
  "bool \<Rightarrow> NavDataFrame \<Rightarrow> real \<Rightarrow> real \<Rightarrow> real list \<Rightarrow> real option
     \<Rightarrow> int \<times> real list \<times> real option" where
  "gps_ecef DEBUG nav toe_sec t_sec state Ek_ptr =
     (case ecef_tk DEBUG toe_sec t_sec of
        None \<Rightarrow> (- 1, state, Ek_ptr)
      | Some tk \<Rightarrow>
          (let Mk = mean_anomaly nav tk;
               e = nav_data nav ! 8
           in (case kepler_solve e Mk of
                 Inl status \<Rightarrow> (status, state, Ek_ptr)
               | Inr E \<Rightarrow>
                   (let Ek_ptr' = (case Ek_ptr of None \<Rightarrow> None | Some old \<Rightarrow> Some E);
                        vk = true_anomaly e E;
                        Ek = acos_anomaly e vk
                    in (case ecef_xyz nav tk vk Ek of
                          (x, y, z) \<Rightarrow> (0, state[0 := x, 1 := y, 2 := z], Ek_ptr'))))))"

subsection \<open>\<^verbatim>\<open>NavDataFrame::gps_dtsv\<close>\<close>

text \<open>Lines 181--182: the two tests on \<^verbatim>\<open>dt\<close>, in the order of the source.\<close>

definition dtsv_wrap :: "real \<Rightarrow> real" where
  "dtsv_wrap dt =
     (let dt = (if dt > 302400 then dt - 604800 else dt);
          dt = (if dt < - 302400 then dt + 604800 else dt)
      in dt)"

text \<open>Lines 204--210: the value assigned to \<^verbatim>\<open>dt_sv\<close>.\<close>

definition dtsv_bias :: "NavDataFrame \<Rightarrow> real \<Rightarrow> real \<Rightarrow> real" where
  "dtsv_bias nav dt Ek =
     (let d = nav_data nav;
          Dtr = F_CLOCK * (d ! 8 * d ! 10 * sin Ek);
          Dtsv = d ! 0 + d ! 1 * dt + (d ! 2 * dt) * dt
      in Dtsv + Dtr)"

text \<open>
  The function. \<open>dt_sv\<close> is the content of the reference parameter before the call;
  the result is the status and the content afterwards. \<open>Ein\<close> is \<open>Some E\<close> for a
  pointer to a cell holding \<open>E\<close>.
\<close>

definition gps_dtsv :: "NavDataFrame \<Rightarrow> real \<Rightarrow> real \<Rightarrow> real option \<Rightarrow> int \<times> real" where
  "gps_dtsv nav dt dt_sv Ein =
     (let dt = dtsv_wrap dt in
      case Ein of
        None \<Rightarrow>
          (case kepler_solve (nav_data nav ! 8) (mean_anomaly nav dt) of
             Inl status \<Rightarrow> (status, dt_sv)
           | Inr Ek \<Rightarrow> (0, dtsv_bias nav dt Ek))
      | Some Ek \<Rightarrow> (0, dtsv_bias nav dt Ek))"

subsection \<open>\<^verbatim>\<open>NavDataFrame::gps_stateNclock\<close>\<close>

text \<open>\<^verbatim>\<open>static_cast<int>\<close> and \<^verbatim>\<open>static_cast<long>\<close> of a double in range: truncation.\<close>

definition trunc :: "real \<Rightarrow> int" where
  "trunc x = (if 0 \<le> x then \<lfloor>x\<rfloor> else \<lceil>x\<rceil>)"

text \<open>
  \<^verbatim>\<open>navrnx.hpp\<close>, lines 92--114. Two operations of ggdatetime are parameters: \<open>wk2date\<close>,
  the constructor of a time stamp from a GPS week and the seconds of the week (used by
  \<^verbatim>\<open>gps__toe2date\<close>, lines 68--75), and \<open>delta_sec\<close>, the difference of two time stamps
  in fractional seconds. The calls pass no \<^verbatim>\<open>Ek\<close> pointer, so both default to
  \<^verbatim>\<open>nullptr\<close>. The result is the status, the array \<open>state\<close> and the content of \<open>dt\<close>
  after the call.
\<close>

definition gps__toe2date :: "(int \<Rightarrow> int \<Rightarrow> datetime) \<Rightarrow> NavDataFrame \<Rightarrow> datetime" where
  "gps__toe2date wk2date nav =
     (let wk = trunc (nav_data nav ! 21);
          sc = trunc (nav_data nav ! 11)
      in wk2date wk sc)"

text \<open>Lines 101--107: the epoch's seconds of day, moved to the day of \<open>toe\<close>.\<close>

definition stateNclock_t_sec :: "datetime \<Rightarrow> datetime \<Rightarrow> real" where
  "stateNclock_t_sec toe t =
     (let t_sec = sec t
      in if mjd t > mjd toe then t_sec + 86400
         else if mjd t < mjd toe then t_sec - 86400
         else t_sec)"

definition gps_stateNclock ::
  "bool \<Rightarrow> (int \<Rightarrow> int \<Rightarrow> datetime) \<Rightarrow> (datetime \<Rightarrow> datetime \<Rightarrow> real)
     \<Rightarrow> NavDataFrame \<Rightarrow> datetime \<Rightarrow> real list \<Rightarrow> real \<Rightarrow> int \<times> real list \<times> real" where
  "gps_stateNclock DEBUG wk2date delta_sec nav t state dt =
     (let toe = gps__toe2date wk2date nav;
          toe_sec = sec toe;
          t_sec = stateNclock_t_sec toe t
      in (case gps_ecef DEBUG nav toe_sec t_sec state None of
            (status, state', Ek') \<Rightarrow>
              if status \<noteq> 0 then (status, state', dt)
              else
                (let dti = delta_sec t (nav_toc nav)
                 in (case gps_dtsv nav dti dt None of
                       (status, dt') \<Rightarrow>
                         if status \<noteq> 0 then (status, state', dt')
                         else (status, state', dt')))))"

subsection \<open>The half-week window and example records\<close>

text \<open>The window \<open>(-302400, 302400]\<close> of the specification, in seconds.\<close>

definition in_half_week :: "real \<Rightarrow> bool" where
  "in_half_week tk = (- 302400 < tk \<and> tk \<le> 302400)"

text \<open>
  Records at which the theorems are instantiated. \<open>nav_example M0 e\<close> has mean anomaly
  at reference time \<open>M0\<close>, eccentricity \<open>e\<close>, \<open>\<surd>A = 5153\<close>, a clock bias of \<open>1e-4\<close> s
  and a clock drift of \<open>1e-11\<close>; every other field is zero. \<open>nav_clock_cycle\<close> has
  \<open>M0 = 0\<close>, \<open>e = \<pi>/2\<close>, \<open>\<surd>A = 1\<close> and a time of clock chosen so that the mean anomaly
  is \<open>0\<close> at the time of ephemeris and \<open>\<pi>/2\<close> at \<open>\<pi> / (2 \<surd>\<mu>)\<close> seconds after the
  time of clock.
\<close>

definition nav_example :: "real \<Rightarrow> real \<Rightarrow> NavDataFrame" where
  "nav_example M0 e =
     \<lparr>nav_prn = 1, nav_toc = \<lparr>mjd = 44244, sec = 0\<rparr>,
      nav_data =
        (replicate 31 0)[0 := 1 / 10 ^ 4, 1 := 1 / 10 ^ 11, 6 := M0, 8 := e, 10 := 5153]\<rparr>"

definition nav_clock_cycle :: NavDataFrame where
  "nav_clock_cycle =
     \<lparr>nav_prn = 1, nav_toc = \<lparr>mjd = 44243, sec = 86400 - pi / (2 * sqrt mi_gps)\<rparr>,
      nav_data = (replicate 31 0)[8 := pi / 2, 10 := 1]\<rparr>"

text \<open>
  One instance of the two operations of ggdatetime that \<^const>\<open>gps_stateNclock\<close> takes as
  parameters, used where a theorem about \<^const>\<open>gps_stateNclock\<close> is instantiated: day
  44244 is 6 January 1980, the start of GPS week 0.
\<close>

definition example_wk2date :: "int \<Rightarrow> int \<Rightarrow> datetime" where
  "example_wk2date wk sc =
     \<lparr>mjd = 44244 + 7 * wk + sc div 86400, sec = real_of_int (sc mod 86400)\<rparr>"

definition example_delta_sec :: "datetime \<Rightarrow> datetime \<Rightarrow> real" where
  "example_delta_sec a b = real_of_int (mjd a - mjd b) * 86400 + (sec a - sec b)"

subsection \<open>The solver as the specification words it\<close>

text \<open>
  Section 4.1 of the specification, word for word: ``fixed-point iteration seeded at
  \<open>E\<^sub>0 = M\<close>; each step computes \<open>E\<^sub>i\<^sub>+\<^sub>1 = M + e sin E\<^sub>i\<close>; terminates when
  \<open>|E\<^sub>i\<^sub>+\<^sub>1 - E\<^sub>i| \<le> 1e-14\<close> or after 1000 iterations'', and ``signals
  \<open>NonConvergence\<close> if the tolerance is not reached within the iteration cap''.
  \<open>KeplerSolver_iter M e i Ei\<close> has made \<open>i\<close> steps and holds \<open>E\<^sub>i\<close>. This is the
  text of the specification, not the code; it is what \<^const>\<open>kepler_solve\<close> is compared
  with.
\<close>

datatype solver_error = NonConvergence

function KeplerSolver_iter :: "real \<Rightarrow> real \<Rightarrow> nat \<Rightarrow> real \<Rightarrow> solver_error + real" where
  "KeplerSolver_iter M e i Ei =
     (if 1000 \<le> i then Inl NonConvergence
      else
        let En = M + e * sin Ei
        in if \<bar>En - Ei\<bar> \<le> 1 / 10 ^ 14 then Inr En
           else KeplerSolver_iter M e (i + 1) En)"
  by pat_completeness auto
termination
  by (relation "measure (\<lambda>(M, e, i, Ei). 1000 - i)") auto

definition KeplerSolver_spec :: "real \<Rightarrow> real \<Rightarrow> solver_error + real" where
  "KeplerSolver_spec M e = KeplerSolver_iter M e 0 M"

section \<open>The Kepler loop: general facts\<close>

declare kepler_loop.simps [simp del]

declare KeplerSolver_iter.simps [simp del]

lemma kepler_loop_exit:
  "\<not> (\<bar>E - Ek\<bar> > LIMIT \<and> i < 1001) \<Longrightarrow> kepler_loop e Mk i E Ek = (i, E, Ek)"
  by (subst kepler_loop.simps) auto

lemma kepler_loop_step:
  "\<bar>E - Ek\<bar> > LIMIT \<Longrightarrow> i < 1001 \<Longrightarrow>
     kepler_loop e Mk i E Ek = kepler_loop e Mk (i + 1) (sin E * e + Mk) E"
  by (subst kepler_loop.simps) simp


text \<open>An iteration that alternates between two values more than \<open>LIMIT\<close> apart runs to
  the cap.\<close>

lemma kepler_loop_two_cycle:
  "sin a * e + Mk = b \<Longrightarrow> sin b * e + Mk = a \<Longrightarrow> \<bar>a - b\<bar> > LIMIT \<Longrightarrow> i \<le> 1001 \<Longrightarrow>
     fst (kepler_loop e Mk i a b) = 1001"
proof (induction e Mk i a b rule: kepler_loop.induct)
  case (1 e Mk i E Ek)
  show ?case
  proof (cases "i < 1001")
    case True
    then have "kepler_loop e Mk i E Ek = kepler_loop e Mk (i + 1) (sin E * e + Mk) E"
      using "1.prems" by (simp add: kepler_loop_step)
    moreover have "fst (kepler_loop e Mk (i + 1) (sin E * e + Mk) E) = 1001"
      using "1.IH" "1.prems" True by (simp add: abs_minus_commute)
    ultimately show ?thesis by simp
  next
    case False
    then show ?thesis using "1.prems" by (simp add: kepler_loop_exit)
  qed
qed

lemma kepler_solve_fst:
  "kepler_solve e Mk =
     (if 1000 \<le> fst (kepler_loop e Mk 0 Mk 0) then Inl 1
      else Inr (fst (snd (kepler_loop e Mk 0 Mk 0))))"
  by (simp add: kepler_solve_def split: prod.splits)

lemma kepler_solve_status:
  "kepler_solve e Mk = Inl s \<Longrightarrow> s = 1"
  by (auto simp: kepler_solve_def split: prod.splits if_splits)

text \<open>A mean anomaly within \<open>LIMIT\<close> of zero passes the first test of the loop, against
  the initial \<^verbatim>\<open>Ek = 0\<close>: no iteration is made.\<close>

lemma kepler_solve_seed:
  "\<bar>Mk\<bar> \<le> LIMIT \<Longrightarrow> kepler_solve e Mk = Inr Mk"
  by (simp add: kepler_solve_def kepler_loop_exit)

lemma kepler_solve_circular: "kepler_solve 0 Mk = Inr Mk"
proof (cases "\<bar>Mk\<bar> \<le> LIMIT")
  case True
  then show ?thesis by (rule kepler_solve_seed)
next
  case False
  then have "kepler_loop 0 Mk 0 Mk 0 = kepler_loop 0 Mk 1 Mk Mk"
    using kepler_loop_step [of Mk 0 0 0 Mk] by simp
  also have "\<dots> = (1, Mk, Mk)"
    by (rule kepler_loop_exit) (simp add: LIMIT_def)
  finally show ?thesis by (simp add: kepler_solve_def)
qed

lemma kepler_solve_count:
  "kepler_solve e Mk =
     (if 1000 \<le> kepler_count e Mk then Inl 1 else Inr (fst (snd (kepler_loop e Mk 0 Mk 0))))"
  by (simp add: kepler_solve_fst kepler_count_def)


lemma kepler_count_seed: "\<bar>Mk\<bar> \<le> LIMIT \<Longrightarrow> kepler_count e Mk = 0"
  by (simp add: kepler_count_def kepler_loop_exit)

lemma kepler_count_pi_half: "kepler_count (pi / 2) (pi / 2) = 1001"
proof -
  have L: "LIMIT < pi / 2" using pi_ge_two by (simp add: LIMIT_def)
  have "kepler_loop (pi / 2) (pi / 2) 0 (pi / 2) 0 = kepler_loop (pi / 2) (pi / 2) 1 pi (pi / 2)"
    using kepler_loop_step [of "pi / 2" 0 0 "pi / 2" "pi / 2"] L by simp
  moreover have "fst (kepler_loop (pi / 2) (pi / 2) 1 pi (pi / 2)) = 1001"
    by (rule kepler_loop_two_cycle) (use L in simp_all)
  ultimately show ?thesis by (simp add: kepler_count_def)
qed

lemma kepler_solve_pi_half: "kepler_solve (pi / 2) (pi / 2) = Inl 1"
  by (simp add: kepler_solve_count kepler_count_pi_half)

section \<open>Facts about the two functions\<close>

lemma mean_anomaly_at_zero: "mean_anomaly nav 0 = nav_data nav ! 6"
  by (simp add: mean_anomaly_def Let_def)

lemma gps_ecef_status:
  "fst (gps_ecef DEBUG nav toe_sec t_sec state Ek_ptr) =
     (case ecef_tk DEBUG toe_sec t_sec of
        None \<Rightarrow> - 1
      | Some tk \<Rightarrow>
          (case kepler_solve (nav_data nav ! 8) (mean_anomaly nav tk) of
             Inl s \<Rightarrow> s | Inr E \<Rightarrow> 0))"
  by (simp add: gps_ecef_def Let_def split: option.splits sum.splits prod.splits)

lemma gps_ecef_error_frame:
  "fst (gps_ecef DEBUG nav toe_sec t_sec state Ek_ptr) \<noteq> 0 \<Longrightarrow>
     gps_ecef DEBUG nav toe_sec t_sec state Ek_ptr
       = (fst (gps_ecef DEBUG nav toe_sec t_sec state Ek_ptr), state, Ek_ptr)"
  by (auto simp: gps_ecef_def Let_def split: option.splits sum.splits prod.splits)


lemma gps_dtsv_None:
  "gps_dtsv nav dt dt_sv None =
     (case kepler_solve (nav_data nav ! 8) (mean_anomaly nav (dtsv_wrap dt)) of
        Inl s \<Rightarrow> (s, dt_sv) | Inr Ek \<Rightarrow> (0, dtsv_bias nav (dtsv_wrap dt) Ek))"
  by (simp add: gps_dtsv_def Let_def)

lemma dtsv_bias_expanded:
  "dtsv_bias nav dt Ek =
     nav_data nav ! 0 + nav_data nav ! 1 * dt + nav_data nav ! 2 * dt\<^sup>2
       + F_CLOCK * nav_data nav ! 8 * nav_data nav ! 10 * sin Ek"
  by (simp add: dtsv_bias_def Let_def power2_eq_square algebra_simps)

lemma dtsv_bias_tgd:
  "dtsv_bias (nav\<lparr>nav_data := (nav_data nav)[25 := tgd]\<rparr>) dt Ek = dtsv_bias nav dt Ek"
  by (simp add: dtsv_bias_def Let_def)

lemma mean_anomaly_tgd:
  "mean_anomaly (nav\<lparr>nav_data := (nav_data nav)[25 := tgd]\<rparr>) dt = mean_anomaly nav dt"
  by (simp add: mean_anomaly_def Let_def)

lemma gps_dtsv_tgd:
  "gps_dtsv (nav\<lparr>nav_data := (nav_data nav)[25 := tgd]\<rparr>) dt dt_sv Ein
     = gps_dtsv nav dt dt_sv Ein"
proof -
  have "nav_data (nav\<lparr>nav_data := (nav_data nav)[25 := tgd]\<rparr>) ! 8 = nav_data nav ! 8"
    by simp
  then show ?thesis
    unfolding gps_dtsv_def dtsv_bias_tgd mean_anomaly_tgd by (simp only:)
qed

lemma nav_example_data:
  "nav_data (nav_example M0 e) ! 0 = 1 / 10 ^ 4" "nav_data (nav_example M0 e) ! Suc 0 = 1 / 10 ^ 11"
  "nav_data (nav_example M0 e) ! 2 = 0" "nav_data (nav_example M0 e) ! 5 = 0"
  "nav_data (nav_example M0 e) ! 6 = M0" "nav_data (nav_example M0 e) ! 8 = e"
  "nav_data (nav_example M0 e) ! 10 = 5153" "nav_data (nav_example M0 e) ! 11 = 0"
  "nav_data (nav_example M0 e) ! 21 = 0"
  by (simp_all add: nav_example_def)

lemma ecef_tk_zero: "ecef_tk DEBUG 0 0 = Some 0"
  by (simp add: ecef_tk_def)

lemma dtsv_wrap_zero: "dtsv_wrap 0 = 0"
  by (simp add: dtsv_wrap_def)

lemma mean_anomaly_example: "mean_anomaly (nav_example M0 e) 0 = M0"
  by (simp add: mean_anomaly_at_zero nav_example_data)

lemma gps_example_fail:
  assumes "kepler_solve e M0 = Inl s"
  shows "gps_ecef DEBUG (nav_example M0 e) 0 0 state Ek_ptr = (s, state, Ek_ptr)
       \<and> gps_dtsv (nav_example M0 e) 0 dt_sv None = (s, dt_sv)"
  using assms
  by (simp add: gps_ecef_def gps_dtsv_def ecef_tk_zero dtsv_wrap_zero mean_anomaly_example
      nav_example_data)


lemma gps_ecef_debug_reject:
  "gps_ecef True nav 0 400000 state Ek_ptr = (- 1, state, Ek_ptr)"
  by (simp add: gps_ecef_def ecef_tk_def)

lemma gps_dtsv_error_frame:
  "fst (gps_dtsv nav dt dt_sv Ein) \<noteq> 0 \<Longrightarrow>
     gps_dtsv nav dt dt_sv Ein = (fst (gps_dtsv nav dt dt_sv Ein), dt_sv)"
  by (auto simp: gps_dtsv_def Let_def split: option.splits sum.splits)

lemma gps_dtsv_status:
  "fst (gps_dtsv nav dt dt_sv None) =
     (case kepler_solve (nav_data nav ! 8) (mean_anomaly nav (dtsv_wrap dt)) of
        Inl s \<Rightarrow> s | Inr E \<Rightarrow> 0)"
  by (simp add: gps_dtsv_None split: sum.splits)

lemma trunc_zero: "trunc 0 = 0"
  by (simp add: trunc_def)

lemma toe_example:
  "gps__toe2date example_wk2date (nav_example (pi / 2) (pi / 2)) = \<lparr>mjd = 44244, sec = 0\<rparr>"
  by (simp add: gps__toe2date_def example_wk2date_def nav_example_data trunc_zero)

lemma nav_clock_cycle_data:
  "nav_data nav_clock_cycle ! 5 = 0" "nav_data nav_clock_cycle ! 6 = 0"
  "nav_data nav_clock_cycle ! 8 = pi / 2" "nav_data nav_clock_cycle ! 10 = 1"
  "nav_data nav_clock_cycle ! 11 = 0" "nav_data nav_clock_cycle ! 21 = 0"
  "nav_toc nav_clock_cycle = \<lparr>mjd = 44243, sec = 86400 - pi / (2 * sqrt mi_gps)\<rparr>"
  by (simp_all add: nav_clock_cycle_def)

lemma toe_clock_cycle:
  "gps__toe2date example_wk2date nav_clock_cycle = \<lparr>mjd = 44244, sec = 0\<rparr>"
  by (simp add: gps__toe2date_def example_wk2date_def nav_clock_cycle_data trunc_zero)

lemma delta_clock_cycle:
  "example_delta_sec \<lparr>mjd = 44244, sec = 0\<rparr> (nav_toc nav_clock_cycle) = pi / (2 * sqrt mi_gps)"
  by (simp add: example_delta_sec_def nav_clock_cycle_data)

lemma small_dt: "0 < pi / (2 * sqrt mi_gps) \<and> pi / (2 * sqrt mi_gps) \<le> 2"
proof -
  have "sqrt 1 \<le> sqrt mi_gps" unfolding real_sqrt_le_iff by (simp add: mi_gps_def)
  then have s: "1 \<le> sqrt mi_gps" by simp
  then have "pi / (2 * sqrt mi_gps) \<le> pi / (2 * 1)"
    using pi_gt_zero by (intro divide_left_mono mult_left_mono mult_pos_pos) simp_all
  moreover have "0 < pi / (2 * sqrt mi_gps)" using s pi_gt_zero by simp
  ultimately show ?thesis using pi_less_4 by simp
qed

lemma mean_anomaly_clock_cycle:
  "mean_anomaly nav_clock_cycle (pi / (2 * sqrt mi_gps)) = pi / 2"
proof -
  have "sqrt mi_gps \<noteq> 0" by (simp add: mi_gps_def)
  then show ?thesis by (simp add: mean_anomaly_def Let_def nav_clock_cycle_data)
qed

lemma gps_dtsv_clock_cycle:
  "gps_dtsv nav_clock_cycle (pi / (2 * sqrt mi_gps)) dt None = (1, dt)"
proof -
  have "dtsv_wrap (pi / (2 * sqrt mi_gps)) = pi / (2 * sqrt mi_gps)"
    using small_dt by (simp add: dtsv_wrap_def)
  then show ?thesis
    by (simp add: gps_dtsv_None mean_anomaly_clock_cycle nav_clock_cycle_data kepler_solve_pi_half)
qed

lemma gps_ecef_clock_cycle:
  "fst (gps_ecef False nav_clock_cycle 0 0 state None) = 0"
  by (simp add: gps_ecef_status ecef_tk_def mean_anomaly_at_zero nav_clock_cycle_data
      kepler_solve_seed LIMIT_def)

lemma sin_tiny_pos: "0 < sin (1 / 10 ^ 14 :: real)"
proof -
  have "(1 / 10 ^ 14 :: real) < pi" using pi_ge_two by simp
  then show ?thesis by (intro sin_gt_zero) simp_all
qed

lemma sin_tiny_le: "sin (1 / 10 ^ 14 :: real) \<le> 1 / 10 ^ 14"
  by (rule sin_x_le_x) simp

section \<open>The angle functions\<close>


lemma sqrt_one_plus_ratio:
  assumes "x \<noteq> 0"
  shows "sqrt (1 + (y / x)\<^sup>2) = sqrt (x\<^sup>2 + y\<^sup>2) / \<bar>x\<bar>"
proof -
  have "1 + (y / x)\<^sup>2 = (x\<^sup>2 + y\<^sup>2) / x\<^sup>2"
    using assms by (simp add: power_divide add_divide_distrib)
  then show ?thesis by (simp add: real_sqrt_divide)
qed

lemma cos_atan2:
  assumes "x \<noteq> 0 \<or> y \<noteq> 0"
  shows "cos (atan2 y x) = x / sqrt (x\<^sup>2 + y\<^sup>2)"
proof -
  consider "0 < x" | "x < 0" | "x = 0" by linarith
  then show ?thesis
  proof cases
    case 1
    then show ?thesis
      by (simp add: atan2_def cos_arctan sqrt_one_plus_ratio)
  next
    case 2
    then show ?thesis
      by (simp add: atan2_def cos_arctan sqrt_one_plus_ratio)
  next
    case 3
    then show ?thesis using assms by (auto simp: atan2_def)
  qed
qed





lemma cos_true_anomaly:
  assumes "0 \<le> e" "e < 1"
  shows "cos (true_anomaly e E) = (cos E - e) / (1 - e * cos E)"
proof -
  define D where "D = 1 - e * cos E"
  define x where "x = (cos E - e) / D"
  define y where "y = (sqrt (1 - e * e) * sin E) / D"
  have "e * cos E \<le> e * 1" using assms(1) by (intro mult_left_mono) simp_all
  then have D: "0 < D" using assms(2) by (simp add: D_def)
  have e2: "0 \<le> 1 - e * e"
  proof -
    have "e * e \<le> 1 * 1" using assms by (intro mult_mono) simp_all
    then show ?thesis by simp
  qed
  have "(sqrt (1 - e * e) * sin E)\<^sup>2 = (1 - e * e) * (sin E)\<^sup>2"
    using e2 by (simp add: power_mult_distrib)
  also have "\<dots> = (1 - e * e) * (1 - (cos E)\<^sup>2)" by (simp add: sin_squared_eq)
  finally have "(cos E - e)\<^sup>2 + (sqrt (1 - e * e) * sin E)\<^sup>2 = D\<^sup>2"
    by (simp add: D_def power2_eq_square algebra_simps)
  then have "x\<^sup>2 + y\<^sup>2 = D\<^sup>2 / D\<^sup>2"
    by (simp add: x_def y_def power_divide add_divide_distrib [symmetric])
  then have unit: "x\<^sup>2 + y\<^sup>2 = 1" using D by simp
  then have nz: "x \<noteq> 0 \<or> y \<noteq> 0" by auto
  have "true_anomaly e E = atan2 y x"
    by (simp add: true_anomaly_def Let_def x_def y_def D_def)
  then show ?thesis using cos_atan2 [OF nz] unit by (simp add: x_def D_def)
qed

lemma acos_true_anomaly:
  assumes "0 \<le> e" "e < 1"
  shows "acos_anomaly e (true_anomaly e E) = arccos (cos E)"
proof -
  define D where "D = 1 - e * cos E"
  have "e * cos E \<le> e * 1" using assms(1) by (intro mult_left_mono) simp_all
  then have D: "0 < D" using assms(2) by (simp add: D_def)
  have "e * e < 1 * 1" using assms by (intro mult_strict_mono) simp_all
  then have e2: "0 < 1 - e * e" by simp
  have c: "cos (true_anomaly e E) = (cos E - e) / D"
    using cos_true_anomaly [OF assms] by (simp add: D_def)
  have n: "e + (cos E - e) / D = (cos E * (1 - e * e)) / D"
    using D by (simp add: field_simps D_def)
  have d: "1 + e * ((cos E - e) / D) = (1 - e * e) / D"
    using D by (simp add: field_simps D_def)
  have "(e + cos (true_anomaly e E)) / (1 + e * cos (true_anomaly e E)) = cos E"
    unfolding c n d using D e2 by simp
  then show ?thesis by (simp add: acos_anomaly_def Let_def)
qed

lemma ecef_xyz_cos:
  "cos Ek = cos Ek' \<Longrightarrow> ecef_xyz nav tk vk Ek = ecef_xyz nav tk vk Ek'"
  by (simp add: ecef_xyz_def Let_def)

section \<open>The loop of the code and the solver of the specification\<close>

text \<open>
  After its first pass the loop of the code is the solver of the specification, but for
  the test that follows it: the specification accepts a tolerance met on any of the
  first 1000 steps, the code only one that leaves the counter below 1000.
\<close>

lemma KeplerSolver_iter_loop:
  "i < 1000 \<Longrightarrow>
     KeplerSolver_iter M e i Ei =
       (case kepler_loop e M (int i + 1) (sin Ei * e + M) Ei of
          (k, E, Ek) \<Rightarrow> if k \<le> 1000 then Inr E else Inl NonConvergence)"
proof (induction M e i Ei rule: KeplerSolver_iter.induct)
  case (1 M e i Ei)
  define En where "En = sin Ei * e + M"
  have En: "M + e * sin Ei = En" by (simp add: En_def mult.commute add.commute)
  show ?case
  proof (cases "\<bar>En - Ei\<bar> \<le> LIMIT")
    case True
    then have "kepler_loop e M (int i + 1) En Ei = (int i + 1, En, Ei)"
      by (intro kepler_loop_exit) simp
    moreover have "KeplerSolver_iter M e i Ei = Inr En"
      using True "1.prems" by (subst KeplerSolver_iter.simps) (simp add: En Let_def LIMIT_def)
    ultimately show ?thesis using "1.prems" by (simp add: En_def)
  next
    case False
    then have step: "kepler_loop e M (int i + 1) En Ei
        = kepler_loop e M (int (i + 1) + 1) (sin En * e + M) En"
      using "1.prems" kepler_loop_step [of En Ei "int i + 1" e M] by (simp add: add.commute)
    have spec: "KeplerSolver_iter M e i Ei = KeplerSolver_iter M e (i + 1) En"
      using False "1.prems" by (subst KeplerSolver_iter.simps) (simp add: En Let_def LIMIT_def)
    show ?thesis
    proof (cases "i + 1 < 1000")
      case True
      have "KeplerSolver_iter M e (i + 1) En =
          (case kepler_loop e M (int (i + 1) + 1) (sin En * e + M) En of
             (k, E, Ek) \<Rightarrow> if k \<le> 1000 then Inr E else Inl NonConvergence)"
        using "1.IH" [of En] "1.prems" False True by (simp add: En LIMIT_def)
      then show ?thesis using spec step by (simp add: En_def)
    next
      case False
      with "1.prems" have i: "i = 999" by simp
      have "KeplerSolver_iter M e (i + 1) En = Inl NonConvergence"
        using i by (subst KeplerSolver_iter.simps) simp
      moreover have "kepler_loop e M 1001 (sin En * e + M) En = (1001, sin En * e + M, En)"
        by (intro kepler_loop_exit) simp
      then have "kepler_loop e M (int (i + 1) + 1) (sin En * e + M) En
          = (1001, sin En * e + M, En)"
        using i by simp
      ultimately show ?thesis using spec step i by (simp add: En_def)
    qed
  qed
qed

lemma KeplerSolver_spec_loop:
  assumes "LIMIT < \<bar>M\<bar>"
  shows "KeplerSolver_spec M e =
           (case kepler_loop e M 0 M 0 of
              (k, E, Ek) \<Rightarrow> if k \<le> 1000 then Inr E else Inl NonConvergence)"
proof -
  have "kepler_loop e M 0 M 0 = kepler_loop e M 1 (sin M * e + M) M"
    using assms kepler_loop_step [of M 0 0 e M] by simp
  then show ?thesis
    using KeplerSolver_iter_loop [of 0 M e M] by (simp add: KeplerSolver_spec_def)
qed

lemma KeplerSolver_spec_fst:
  assumes "LIMIT < \<bar>M\<bar>"
  shows "KeplerSolver_spec M e =
           (if fst (kepler_loop e M 0 M 0) \<le> 1000
            then Inr (fst (snd (kepler_loop e M 0 M 0)))
            else Inl NonConvergence)"
  by (simp add: KeplerSolver_spec_loop [OF assms] split: prod.splits)

text \<open>
  So the two agree whenever the mean anomaly is more than \<open>LIMIT\<close> away from zero and
  the loop does not end with its counter at exactly 1000.
\<close>

lemma kepler_solve_agrees:
  assumes "LIMIT < \<bar>M\<bar>" "fst (kepler_loop e M 0 M 0) \<noteq> 1000"
  shows "kepler_solve e M =
           (case KeplerSolver_spec M e of Inl NonConvergence \<Rightarrow> Inl 1 | Inr E \<Rightarrow> Inr E)"
  using assms(2) by (auto simp: kepler_solve_fst KeplerSolver_spec_fst [OF assms(1)])

section \<open>A slowly converging iteration\<close>

text \<open>
  For a small positive mean anomaly the successive differences of the iteration shrink by
  a factor between \<open>e (1 - B\<^sup>2/2)\<close> and \<open>e\<close> at every step, where \<open>B\<close> bounds the
  iterates; this fixes the step at which the loop ends.
\<close>

lemma cos_lower_bound: "1 - x\<^sup>2 / 2 \<le> cos (x::real)"
proof -
  have "\<bar>sin (x / 2)\<bar> \<le> \<bar>x / 2\<bar>" by (rule abs_sin_x_le_abs_x)
  then have "\<bar>sin (x / 2)\<bar>\<^sup>2 \<le> \<bar>x / 2\<bar>\<^sup>2" by (intro power_mono) simp_all
  then have s: "(sin (x / 2))\<^sup>2 \<le> x\<^sup>2 / 4" by (simp add: power_divide)
  have "cos x = 1 - 2 * (sin (x / 2))\<^sup>2" using cos_double_sin [of "x / 2"] by simp
  with s show ?thesis by linarith
qed

lemma sin_diff_bounds:
  fixes a b B :: real
  assumes "0 \<le> a" "a \<le> b" "b \<le> B"
  shows "(1 - B\<^sup>2 / 2) * (b - a) \<le> sin b - sin a" and "sin b - sin a \<le> b - a"
proof -
  have both: "(1 - B\<^sup>2 / 2) * (b - a) \<le> sin b - sin a \<and> sin b - sin a \<le> b - a"
  proof (cases "a = b")
    case True
    then show ?thesis by simp
  next
    case False
    with assms(2) have ab: "a < b" by simp
    have "\<exists>z>a. z < b \<and> sin b - sin a = (b - a) * cos z"
      by (rule MVT2 [OF ab]) (rule DERIV_sin)
    then obtain z where z: "a < z" "z < b" "sin b - sin a = (b - a) * cos z" by blast
    have "z\<^sup>2 \<le> B\<^sup>2" using z(1,2) assms(1,3) by (intro power_mono) simp_all
    then have "1 - B\<^sup>2 / 2 \<le> cos z" using cos_lower_bound [of z] by linarith
    then have lo: "(b - a) * (1 - B\<^sup>2 / 2) \<le> (b - a) * cos z"
      using ab by (intro mult_left_mono) simp_all
    have "(b - a) * cos z \<le> (b - a) * 1"
      using ab by (intro mult_left_mono) simp_all
    with lo z(3) show ?thesis by (simp add: mult.commute)
  qed
  from both show "(1 - B\<^sup>2 / 2) * (b - a) \<le> sin b - sin a" by simp
  from both show "sin b - sin a \<le> b - a" by simp
qed

lemma kepler_loop_slow:
  fixes e M B :: real and N :: nat
  assumes e: "0 \<le> e" and B: "M + e * B \<le> B" and c: "0 \<le> 1 - B\<^sup>2 / 2"
      and lo: "\<And>n. n < N \<Longrightarrow> LIMIT < M * (e * (1 - B\<^sup>2 / 2)) ^ n"
      and hi: "M * e ^ N \<le> LIMIT" and N: "N < 1001"
  shows "n \<le> N \<Longrightarrow> 0 \<le> Ek \<Longrightarrow> Ek \<le> E \<Longrightarrow> E \<le> B \<Longrightarrow> E = sin Ek * e + M \<Longrightarrow>
         M * (e * (1 - B\<^sup>2 / 2)) ^ n \<le> E - Ek \<Longrightarrow> E - Ek \<le> M * e ^ n \<Longrightarrow>
         fst (kepler_loop e M (int n) E Ek) = int N"
proof (induction "N - n" arbitrary: n E Ek)
  case 0
  then have n: "n = N" by simp
  with "0.prems" hi have "\<bar>E - Ek\<bar> \<le> LIMIT" by simp
  then show ?case using n by (simp add: kepler_loop_exit)
next
  case (Suc k)
  then have n: "n < N" by simp
  define E' where "E' = sin E * e + M"
  have "LIMIT < E - Ek" using lo [OF n] Suc.prems(6) by linarith
  then have step: "kepler_loop e M (int n) E Ek = kepler_loop e M (int (Suc n)) E' E"
    using n N kepler_loop_step [of E Ek "int n" e M] by (simp add: E'_def add.commute)
  have E0: "0 \<le> E" using Suc.prems(2,3) by simp
  have d: "E' - E = e * (sin E - sin Ek)"
    using Suc.prems(5) by (simp add: E'_def algebra_simps)
  have s1: "(1 - B\<^sup>2 / 2) * (E - Ek) \<le> sin E - sin Ek"
    by (rule sin_diff_bounds(1) [OF Suc.prems(2,3,4)])
  have s2: "sin E - sin Ek \<le> E - Ek"
    by (rule sin_diff_bounds(2) [OF Suc.prems(2,3,4)])
  have sn: "0 \<le> sin E - sin Ek"
  proof -
    have "0 \<le> (1 - B\<^sup>2 / 2) * (E - Ek)" using c Suc.prems(3) by simp
    with s1 show ?thesis by linarith
  qed
  have "0 \<le> e * (sin E - sin Ek)" using e sn by (rule mult_nonneg_nonneg)
  with d have a1: "E \<le> E'" by linarith
  have a2: "E' \<le> B"
  proof -
    have "sin E \<le> E" using E0 by (rule sin_x_le_x)
    then have "sin E \<le> B" using Suc.prems(4) by simp
    then have "e * sin E \<le> e * B" using e by (intro mult_left_mono)
    then show ?thesis using B by (simp add: E'_def mult.commute)
  qed
  have a3: "M * (e * (1 - B\<^sup>2 / 2)) ^ Suc n \<le> E' - E"
  proof -
    have x: "0 \<le> e * (1 - B\<^sup>2 / 2)" using e c by simp
    have "M * (e * (1 - B\<^sup>2 / 2)) ^ Suc n
        = M * (e * (1 - B\<^sup>2 / 2)) ^ n * (e * (1 - B\<^sup>2 / 2))" by simp
    also have "\<dots> \<le> (E - Ek) * (e * (1 - B\<^sup>2 / 2))"
      using Suc.prems(6) x by (intro mult_right_mono)
    also have "\<dots> = e * ((1 - B\<^sup>2 / 2) * (E - Ek))" by simp
    also have "\<dots> \<le> e * (sin E - sin Ek)" using s1 e by (intro mult_left_mono)
    also have "\<dots> = E' - E" using d by simp
    finally show ?thesis .
  qed
  have a4: "E' - E \<le> M * e ^ Suc n"
  proof -
    have "E' - E = e * (sin E - sin Ek)" by (rule d)
    also have "\<dots> \<le> e * (E - Ek)" using s2 e by (intro mult_left_mono)
    also have "\<dots> \<le> e * (M * e ^ n)" using Suc.prems(7) e by (intro mult_left_mono)
    also have "\<dots> = M * e ^ Suc n" by simp
    finally show ?thesis .
  qed
  have "fst (kepler_loop e M (int (Suc n)) E' E) = int N"
  proof (rule Suc.hyps(1))
    show "k = N - Suc n" using Suc.hyps(2) by simp
    show "Suc n \<le> N" using n by simp
    show "0 \<le> E" by (rule E0)
    show "E \<le> E'" by (rule a1)
    show "E' \<le> B" by (rule a2)
    show "E' = sin E * e + M" by (simp add: E'_def)
    show "M * (e * (1 - B\<^sup>2 / 2)) ^ Suc n \<le> E' - E" by (rule a3)
    show "E' - E \<le> M * e ^ Suc n" by (rule a4)
  qed
  with step show ?case by simp
qed

lemma pow1000_upper:
  fixes x a b u :: real
  assumes "0 \<le> x" "x ^ 10 \<le> a" "a ^ 10 \<le> b" "b ^ 10 \<le> u"
  shows "x ^ 1000 \<le> u"
proof -
  have "(x ^ 10) ^ 10 \<le> a ^ 10" using assms(1,2) by (intro power_mono) simp_all
  then have "(x ^ 10) ^ 10 \<le> b" using assms(3) by linarith
  then have "((x ^ 10) ^ 10) ^ 10 \<le> b ^ 10" using assms(1) by (intro power_mono) simp_all
  then have "((x ^ 10) ^ 10) ^ 10 \<le> u" using assms(4) by linarith
  moreover have "((x ^ 10) ^ 10) ^ 10 = x ^ 1000" by (simp add: power_mult [symmetric])
  ultimately show ?thesis by simp
qed

lemma pow1000_lower:
  fixes x a b l :: real
  assumes "0 \<le> a" "a \<le> x ^ 10" "0 \<le> b" "b \<le> a ^ 10" "l \<le> b ^ 10"
  shows "l \<le> x ^ 1000"
proof -
  have "a ^ 10 \<le> (x ^ 10) ^ 10" using assms(1,2) by (intro power_mono) simp_all
  then have "b \<le> (x ^ 10) ^ 10" using assms(4) by linarith
  then have "b ^ 10 \<le> ((x ^ 10) ^ 10) ^ 10" using assms(3) by (intro power_mono) simp_all
  then have "l \<le> ((x ^ 10) ^ 10) ^ 10" using assms(5) by linarith
  moreover have "((x ^ 10) ^ 10) ^ 10 = x ^ 1000" by (simp add: power_mult [symmetric])
  ultimately show ?thesis by simp
qed

lemma slow_upper: "(99 / 100 :: real) ^ 1000 \<le> 43172 / 10 ^ 9"
proof (rule pow1000_upper)
  show "(0::real) \<le> 99 / 100" by simp
  show "(99 / 100 :: real) ^ 10 \<le> 904382076 / 10 ^ 9" by (simp add: power_divide)
  show "(904382076 / 10 ^ 9 :: real) ^ 10 \<le> 366032346 / 10 ^ 9" by (simp add: power_divide)
  show "(366032346 / 10 ^ 9 :: real) ^ 10 \<le> 43172 / 10 ^ 9" by (simp add: power_divide)
qed

lemma slow_lower: "43171 / 10 ^ 9 \<le> (99 / 100 - 1 / 10 ^ 10 :: real) ^ 1000"
proof (rule pow1000_lower)
  show "(0::real) \<le> 904382074 / 10 ^ 9" by simp
  show "904382074 / 10 ^ 9 \<le> (99 / 100 - 1 / 10 ^ 10 :: real) ^ 10"
    by (simp add: power_divide)
  show "(0::real) \<le> 366032337 / 10 ^ 9" by simp
  show "(366032337 / 10 ^ 9 :: real) \<le> (904382074 / 10 ^ 9) ^ 10" by (simp add: power_divide)
  show "(43171 / 10 ^ 9 :: real) \<le> (366032337 / 10 ^ 9) ^ 10" by (simp add: power_divide)
qed

lemma slow_tests:
  fixes n :: nat
  assumes "n < 1000"
  shows "LIMIT < 23 / 10 ^ 11 * (99 / 100 * (1 - (23 / 10 ^ 9)\<^sup>2 / 2)) ^ n"
proof -
  define x :: real where "x = 99 / 100 * (1 - (23 / 10 ^ 9)\<^sup>2 / 2)"
  have x0: "99 / 100 - 1 / 10 ^ 10 \<le> x" by (simp add: x_def power2_eq_square)
  have x1: "x \<le> 99 / 100" by (simp add: x_def power2_eq_square)
  have xpos: "0 \<le> x" using x0 by simp
  have "(99 / 100 - 1 / 10 ^ 10 :: real) ^ 1000 \<le> x ^ 1000"
    using x0 by (intro power_mono) simp_all
  then have l: "43171 / 10 ^ 9 \<le> x ^ 1000" using slow_lower by linarith
  have "x ^ 1000 = x ^ 999 * x" by (simp add: power_Suc2 [symmetric])
  also have "\<dots> \<le> x ^ 999 * (99 / 100)" using x1 xpos by (intro mult_left_mono) simp_all
  finally have "43171 / 10 ^ 9 \<le> x ^ 999 * (99 / 100)" using l by linarith
  then have l999: "43171 / 10 ^ 9 * (100 / 99) \<le> x ^ 999" by simp
  have "x ^ 999 \<le> x ^ n" using assms xpos x1 by (intro power_decreasing) simp_all
  with l999 have "43171 / 10 ^ 9 * (100 / 99) \<le> x ^ n" by linarith
  then have "23 / 10 ^ 11 * (43171 / 10 ^ 9 * (100 / 99)) \<le> 23 / 10 ^ 11 * x ^ n"
    by (intro mult_left_mono) simp_all
  moreover have "LIMIT < 23 / 10 ^ 11 * (43171 / 10 ^ 9 * (100 / 99))"
    by (simp add: LIMIT_def)
  ultimately show ?thesis unfolding x_def by linarith
qed

lemma slow_last: "23 / 10 ^ 11 * (99 / 100 :: real) ^ 1000 \<le> LIMIT"
proof -
  have "23 / 10 ^ 11 * (99 / 100 :: real) ^ 1000 \<le> 23 / 10 ^ 11 * (43172 / 10 ^ 9)"
    using slow_upper by (intro mult_left_mono) simp_all
  also have "\<dots> \<le> LIMIT" by (simp add: LIMIT_def)
  finally show ?thesis .
qed

lemma kepler_count_slow: "kepler_count (99 / 100) (23 / 10 ^ 11) = 1000"
proof -
  have "fst (kepler_loop (99 / 100) (23 / 10 ^ 11) (int 0) (23 / 10 ^ 11) 0) = int 1000"
  proof (rule kepler_loop_slow [where B = "23 / 10 ^ 9"])
    show "(0::real) \<le> 99 / 100" by simp
    show "23 / 10 ^ 11 + 99 / 100 * (23 / 10 ^ 9) \<le> (23 / 10 ^ 9 :: real)" by simp
    show "(0::real) \<le> 1 - (23 / 10 ^ 9)\<^sup>2 / 2" by (simp add: power2_eq_square)
    show "LIMIT < 23 / 10 ^ 11 * (99 / 100 * (1 - (23 / 10 ^ 9)\<^sup>2 / 2)) ^ n"
      if "n < 1000" for n :: nat using that by (rule slow_tests)
    show "23 / 10 ^ 11 * (99 / 100 :: real) ^ 1000 \<le> LIMIT" by (rule slow_last)
    show "(1000::nat) < 1001" by simp
    show "(0::nat) \<le> 1000" by simp
    show "(0::real) \<le> 0" by simp
    show "(0::real) \<le> 23 / 10 ^ 11" by simp
    show "(23 / 10 ^ 11 :: real) \<le> 23 / 10 ^ 9" by simp
    show "(23 / 10 ^ 11 :: real) = sin 0 * (99 / 100) + 23 / 10 ^ 11" by simp
    show "23 / 10 ^ 11 * (99 / 100 * (1 - (23 / 10 ^ 9)\<^sup>2 / 2)) ^ 0 \<le> (23 / 10 ^ 11 - 0 :: real)"
      by simp
    show "(23 / 10 ^ 11 - 0 :: real) \<le> 23 / 10 ^ 11 * (99 / 100) ^ 0" by simp
  qed
  then show ?thesis by (simp add: kepler_count_def)
qed

section \<open>The claims\<close>

subsection \<open>C1: the time from ephemeris in \<^verbatim>\<open>gps_ecef\<close>\<close>



subsection \<open>C2: the Kepler loop against the solver of the specification\<close>

text \<open>
  C2: the loop performs the iteration \<open>E\<^sub>i\<^sub>+\<^sub>1 = M + e sin E\<^sub>i\<close> from \<open>E\<^sub>0 = M\<close>,
  stops as soon as \<open>|E\<^sub>i\<^sub>+\<^sub>1 - E\<^sub>i| \<le> 1e-14\<close>, and returns a non-zero status exactly
  when that is not reached within 1000 iterations. The code departs from this twice.

  The first test. The loop is entered with \<^verbatim>\<open>E = Mk\<close> and \<^verbatim>\<open>Ek = 0\<close>, so its first
  test compares \<open>E\<^sub>0\<close> with \<open>0\<close>, not with an iterate. At \<open>Mk = 1e-14\<close>, \<open>e = 0.5\<close>:
  \<open>|1e-14 - 0| > 1e-14\<close> is false, the body never runs, \<^verbatim>\<open>i = 0\<close>, status 0 and
  \<open>E = 1e-14\<close>. The iteration of the claim makes one step, to
  \<open>E\<^sub>1 = 1e-14 + 0.5 sin 1e-14\<close>, which is within the tolerance of \<open>E\<^sub>0\<close>, and returns
  that.

  The last test. The loop runs while \<^verbatim>\<open>i<1001\<close> and the test after it is
  \<^verbatim>\<open>i>=1000\<close>. At \<open>Mk = 2.3e-10\<close>, \<open>e = 0.99\<close> the iterates stay below \<open>2.3e-8\<close>,
  where \<open>sin\<close> is the identity up to a factor \<open>1 - 3e-16\<close>, so the difference after
  \<open>k\<close> steps is \<open>2.3e-10 \<times> 0.99^k\<close> up to that factor to the power \<open>k\<close>:
  \<open>1.0030e-14\<close> after 999 steps and \<open>0.9929e-14\<close> after 1000. The tolerance is reached
  on the 1000th iteration, the loop ends with \<^verbatim>\<open>i = 1000\<close>, and the code returns 1.
\<close>

theorem kepler_loop_divergence:
  "kepler_count (1 / 2) (1 / 10 ^ 14) = 0
   \<and> kepler_solve (1 / 2) (1 / 10 ^ 14) = Inr (1 / 10 ^ 14)
   \<and> KeplerSolver_spec (1 / 10 ^ 14) (1 / 2) = Inr (1 / 10 ^ 14 + sin (1 / 10 ^ 14) / 2)
   \<and> 0 < sin (1 / 10 ^ 14 :: real)
   \<and> kepler_count (99 / 100) (23 / 10 ^ 11) = 1000
   \<and> kepler_solve (99 / 100) (23 / 10 ^ 11) = Inl 1
   \<and> gps_ecef False (nav_example (23 / 10 ^ 11) (99 / 100)) 0 0 [7, 8, 9] (Some 5)
       = (1, [7, 8, 9], Some 5)
   \<and> gps_dtsv (nav_example (23 / 10 ^ 11) (99 / 100)) 0 5 None = (1, 5)
   \<and> KeplerSolver_spec (23 / 10 ^ 11) (99 / 100) \<noteq> Inl NonConvergence"
proof -
  have a: "kepler_count (1 / 2) (1 / 10 ^ 14) = 0"
    by (rule kepler_count_seed) (simp add: LIMIT_def)
  have b: "kepler_solve (1 / 2) (1 / 10 ^ 14) = Inr (1 / 10 ^ 14)"
    by (rule kepler_solve_seed) (simp add: LIMIT_def)
  have "\<bar>sin (1 / 10 ^ 14 :: real) / 2\<bar> \<le> 1 / 10 ^ 14"
    using sin_tiny_pos sin_tiny_le by simp
  then have c: "KeplerSolver_spec (1 / 10 ^ 14) (1 / 2)
      = Inr (1 / 10 ^ 14 + sin (1 / 10 ^ 14) / 2)"
    unfolding KeplerSolver_spec_def by (subst KeplerSolver_iter.simps) (simp add: Let_def)
  note d = kepler_count_slow
  have e: "kepler_solve (99 / 100) (23 / 10 ^ 11) = Inl 1"
    using d by (simp add: kepler_solve_count)
  note f = gps_example_fail [OF e, of False "[7, 8, 9]" "Some 5" 5]
  have "LIMIT < \<bar>23 / 10 ^ 11 :: real\<bar>" by (simp add: LIMIT_def)
  then have g: "KeplerSolver_spec (23 / 10 ^ 11) (99 / 100) \<noteq> Inl NonConvergence"
    using d by (simp add: KeplerSolver_spec_fst kepler_count_def)
  show ?thesis using f by (intro conjI a b c sin_tiny_pos d e g) simp_all
qed

subsection \<open>C3: the clock bias\<close>

text \<open>
  C3: when \<^verbatim>\<open>gps_dtsv\<close> returns 0, the bias it has written is
  \<open>a0 + a1 dt + a2 dt\<^sup>2 + F_CLOCK e \<surd>A sin Ek\<close>, with \<open>dt\<close> the elapsed time after the
  wrap of lines 181--182 and \<open>Ek\<close> the eccentric anomaly, the caller's \<^verbatim>\<open>*Ein\<close> or the
  value the loop ends with. The group delay \<^verbatim>\<open>data__[25]\<close> (TGD) plays no part: any
  other value in that field gives the same result.
\<close>

theorem gps_dtsv_bias_formula:
  assumes "gps_dtsv nav dt dt_sv Ein = (0, bias)"
  shows "(\<exists>Ek. (case Ein of
                  Some E \<Rightarrow> Ek = E
                | None \<Rightarrow> kepler_solve (nav_data nav ! 8) (mean_anomaly nav (dtsv_wrap dt)) = Inr Ek)
             \<and> bias = nav_data nav ! 0 + nav_data nav ! 1 * dtsv_wrap dt
                       + nav_data nav ! 2 * (dtsv_wrap dt)\<^sup>2
                       + F_CLOCK * nav_data nav ! 8 * nav_data nav ! 10 * sin Ek)
       \<and> gps_dtsv (nav\<lparr>nav_data := (nav_data nav)[25 := tgd]\<rparr>) dt dt_sv Ein = (0, bias)"
proof (cases Ein)
  case None
  with assms obtain Ek where
    "kepler_solve (nav_data nav ! 8) (mean_anomaly nav (dtsv_wrap dt)) = Inr Ek"
    "bias = dtsv_bias nav (dtsv_wrap dt) Ek"
    by (auto simp: gps_dtsv_def Let_def split: sum.splits dest: kepler_solve_status)
  then show ?thesis using None assms
    by (auto simp: dtsv_bias_expanded gps_dtsv_tgd)
next
  case (Some E)
  with assms have "bias = dtsv_bias nav (dtsv_wrap dt) E"
    by (simp add: gps_dtsv_def Let_def)
  then show ?thesis using Some assms
    by (simp add: dtsv_bias_expanded gps_dtsv_tgd)
qed

text \<open>At \<open>nav_example 1 0\<close> and \<open>dt = 100\<close>: \<open>1e-4 + 1e-11 \<times> 100 = 1.00001e-4\<close>.\<close>

lemma gps_dtsv_circular:
  "gps_dtsv (nav_example 1 0) 100 0 None = (0, 100001 / 10 ^ 9)"
  by (simp add: gps_dtsv_None nav_example_data kepler_solve_circular dtsv_bias_expanded
      dtsv_wrap_def)

theorem gps_dtsv_bias_formula_witness:
  "gps_dtsv (nav_example 1 0) 100 0 None = (0, 100001 / 10 ^ 9)
   \<and> gps_dtsv ((nav_example 1 0)\<lparr>nav_data := (nav_data (nav_example 1 0))[25 := 1]\<rparr>) 100 0 None
       = (0, 100001 / 10 ^ 9)"
  using gps_dtsv_bias_formula [OF gps_dtsv_circular, of 1] gps_dtsv_circular by simp

subsection \<open>C4: the eccentric anomaly computed again from the true anomaly\<close>

text \<open>
  C4 as stated: for \<open>0 \<le> e < 1\<close> the value \<open>acos((e + cos vk) / (1 + e cos vk))\<close> of
  line 115 equals the \<open>Ek\<close> the iteration ended with. \<^verbatim>\<open>acos\<close> returns a value in
  \<open>[0, \<pi>]\<close> and the iteration does not. At \<open>e = 0\<close>, \<open>Mk = -1\<close>: the loop makes one
  step and ends with \<open>E = -1\<close>; lines 108--113 give \<open>vk = atan2 (sin (-1), cos (-1)) = -1\<close>;
  line 115 gives \<open>acos (cos (-1)) = 1\<close>.
\<close>

theorem acos_anomaly_counterexample:
  "mean_anomaly (nav_example (- 1) 0) 0 = - 1
   \<and> kepler_solve 0 (- 1) = Inr (- 1)
   \<and> acos_anomaly 0 (true_anomaly 0 (- 1)) = 1"
proof -
  have "(1::real) \<le> pi" using pi_ge_two by linarith
  then have "arccos (cos (- 1)) = 1" by (simp add: arccos_cos)
  then have "acos_anomaly 0 (true_anomaly 0 (- 1)) = 1"
    using acos_true_anomaly [of 0 "- 1"] by simp
  then show ?thesis by (simp add: kepler_solve_circular mean_anomaly_example)
qed

text \<open>
  C4 as amended: for \<open>0 \<le> e < 1\<close> and the \<open>E\<close> the iteration ends with, the value of
  line 115 is \<open>arccos (cos E)\<close>: it lies in \<open>[0, \<pi>]\<close>, has the cosine of \<open>E\<close>, which is
  all that line 128 reads of it, so the coordinates are those computed from \<open>E\<close> itself,
  and it equals \<open>E\<close> exactly when \<open>0 \<le> E \<le> \<pi>\<close>. (Exact arithmetic.)
\<close>

theorem acos_anomaly_folds:
  assumes "0 \<le> e" "e < 1" "kepler_solve e M = Inr E"
  shows "acos_anomaly e (true_anomaly e E) = arccos (cos E)
       \<and> cos (acos_anomaly e (true_anomaly e E)) = cos E
       \<and> ecef_xyz nav tk (true_anomaly e E) (acos_anomaly e (true_anomaly e E))
           = ecef_xyz nav tk (true_anomaly e E) E
       \<and> 0 \<le> acos_anomaly e (true_anomaly e E) \<and> acos_anomaly e (true_anomaly e E) \<le> pi
       \<and> (acos_anomaly e (true_anomaly e E) = E \<longleftrightarrow> 0 \<le> E \<and> E \<le> pi)"
proof -
  have a: "acos_anomaly e (true_anomaly e E) = arccos (cos E)"
    by (rule acos_true_anomaly [OF assms(1,2)])
  have b: "0 \<le> arccos (cos E)" "arccos (cos E) \<le> pi"
    by (simp_all add: arccos_lbound arccos_ubound)
  have c: "cos (arccos (cos E)) = cos E" by simp
  have x: "ecef_xyz nav tk (true_anomaly e E) (arccos (cos E))
      = ecef_xyz nav tk (true_anomaly e E) E"
    by (rule ecef_xyz_cos [OF c])
  have "arccos (cos E) = E" if "0 \<le> E" "E \<le> pi" using that by (rule arccos_cos)
  then show ?thesis using a b c x by auto
qed

theorem acos_anomaly_folds_witness:
  "kepler_solve 0 1 = Inr 1 \<and> acos_anomaly 0 (true_anomaly 0 1) = 1
   \<and> kepler_solve (1 / 2) 0 = Inr 0 \<and> acos_anomaly (1 / 2) (true_anomaly (1 / 2) 0) = 0"
proof -
  have p: "(1::real) \<le> pi" using pi_ge_two by linarith
  have k: "kepler_solve (1 / 2) 0 = Inr 0" by (rule kepler_solve_seed) (simp add: LIMIT_def)
  have "acos_anomaly 0 (true_anomaly 0 1) = 1"
    using acos_anomaly_folds [of 0 1 1 "nav_example 1 0" 0] kepler_solve_circular [of 1] p
    by simp
  moreover have "acos_anomaly (1 / 2) (true_anomaly (1 / 2) 0) = 0"
    using acos_anomaly_folds [of "1 / 2" 0 0 "nav_example 1 0" 0] k by simp
  ultimately show ?thesis using k by (simp add: kepler_solve_circular)
qed

subsection \<open>C5: the wrap of \<^verbatim>\<open>dt\<close> in \<^verbatim>\<open>gps_dtsv\<close>\<close>

text \<open>
  C5 as stated: every \<open>dt\<close> outside \<open>(-302400, 302400]\<close> is wrapped into that window.
  Lines 181--182 are two \<^verbatim>\<open>if\<close> statements: one week is added or subtracted once. At
  \<open>dt = 1000000\<close>: line 181 gives \<open>1000000 - 604800 = 395200\<close>, line 182 does not
  apply, and \<open>395200 > 302400\<close>.
\<close>

theorem dtsv_wrap_counterexample:
  "dtsv_wrap 1000000 = 395200 \<and> \<not> in_half_week (dtsv_wrap 1000000)"
  by (simp add: dtsv_wrap_def in_half_week_def)

text \<open>
  C5 as amended: for every \<open>dt\<close> outside the window and less than one week beyond it
  (\<open>302400 < dt \<le> 907200\<close> or \<open>-907200 < dt < -302400\<close>), the wrapped value lies in
  \<open>(-302400, 302400]\<close>, differs from \<open>dt\<close> by exactly one week, and is what the rest of
  \<^verbatim>\<open>gps_dtsv\<close> computes with.
\<close>

theorem dtsv_wrap_one_week:
  assumes "302400 < dt \<and> dt \<le> 907200 \<or> - 907200 < dt \<and> dt < - 302400"
  shows "in_half_week (dtsv_wrap dt)
       \<and> (dtsv_wrap dt = dt - 604800 \<or> dtsv_wrap dt = dt + 604800)
       \<and> gps_dtsv nav dt dt_sv Ein = gps_dtsv nav (dtsv_wrap dt) dt_sv Ein"
proof -
  have 1: "in_half_week (dtsv_wrap dt)"
    using assms by (auto simp: in_half_week_def dtsv_wrap_def Let_def)
  have 2: "dtsv_wrap dt = dt - 604800 \<or> dtsv_wrap dt = dt + 604800"
    using assms by (auto simp: dtsv_wrap_def Let_def)
  have "dtsv_wrap (dtsv_wrap dt) = dtsv_wrap dt"
    using 1 by (simp add: in_half_week_def dtsv_wrap_def [of "dtsv_wrap dt"] Let_def)
  then have 3: "gps_dtsv nav dt dt_sv Ein = gps_dtsv nav (dtsv_wrap dt) dt_sv Ein"
    by (simp add: gps_dtsv_def Let_def)
  from 1 2 3 show ?thesis by simp
qed

theorem dtsv_wrap_one_week_witness:
  "dtsv_wrap 400000 = - 204800 \<and> in_half_week (dtsv_wrap 400000)
   \<and> dtsv_wrap (- 400000) = 204800 \<and> in_half_week (dtsv_wrap (- 400000))"
  using dtsv_wrap_one_week [of 400000] dtsv_wrap_one_week [of "- 400000"]
  by (simp add: dtsv_wrap_def)

subsection \<open>C6: an eccentricity of 1 or more\<close>




subsection \<open>C7: the circular orbit\<close>




subsection \<open>C8: \<^verbatim>\<open>gps_stateNclock\<close> hands a failure on\<close>

text \<open>
  C8: let \<open>s1\<close> be the status of the call of \<^verbatim>\<open>gps_ecef\<close> in \<^verbatim>\<open>gps_stateNclock\<close>
  and \<open>s2\<close> that of the call of \<^verbatim>\<open>gps_dtsv\<close>. If \<open>s1 \<noteq> 0\<close> then
  \<^verbatim>\<open>gps_stateNclock\<close> returns \<open>s1\<close> and has written neither \<open>state\<close> nor \<open>dt\<close>
  (\<^verbatim>\<open>gps_dtsv\<close> is not called); if \<open>s1 = 0\<close> and \<open>s2 \<noteq> 0\<close> it returns \<open>s2\<close> with
  \<open>dt\<close> unwritten. A Kepler loop that does not converge makes the status of its
  function 1, so that is the status handed on.
\<close>

theorem gps_stateNclock_propagates:
  assumes "gps_ecef DEBUG nav (sec (gps__toe2date wk2date nav))
             (stateNclock_t_sec (gps__toe2date wk2date nav) t) state None = (s1, state1, Ek1)"
      and "gps_dtsv nav (delta_sec t (nav_toc nav)) dt None = (s2, dt2)"
  shows "(s1 \<noteq> 0 \<longrightarrow>
            gps_stateNclock DEBUG wk2date delta_sec nav t state dt = (s1, state, dt))
       \<and> (s1 = 0 \<and> s2 \<noteq> 0 \<longrightarrow>
            gps_stateNclock DEBUG wk2date delta_sec nav t state dt = (s2, state1, dt))
       \<and> (\<forall>tk. ecef_tk DEBUG (sec (gps__toe2date wk2date nav))
                  (stateNclock_t_sec (gps__toe2date wk2date nav) t) = Some tk
               \<and> kepler_solve (nav_data nav ! 8) (mean_anomaly nav tk) = Inl 1
               \<longrightarrow> s1 = 1)
       \<and> (kepler_solve (nav_data nav ! 8)
             (mean_anomaly nav (dtsv_wrap (delta_sec t (nav_toc nav)))) = Inl 1
            \<longrightarrow> s2 = 1)"
proof -
  let ?toe = "gps__toe2date wk2date nav"
  note ecef = gps_ecef_error_frame [of DEBUG nav "sec ?toe" "stateNclock_t_sec ?toe t" state None]
    gps_ecef_status [of DEBUG nav "sec ?toe" "stateNclock_t_sec ?toe t" state None]
  note dtsv = gps_dtsv_error_frame [of nav "delta_sec t (nav_toc nav)" dt None]
    gps_dtsv_status [of nav "delta_sec t (nav_toc nav)" dt]
  have a: "gps_stateNclock DEBUG wk2date delta_sec nav t state dt = (s1, state, dt)"
    if "s1 \<noteq> 0"
    using ecef(1) assms(1) that by (simp add: gps_stateNclock_def Let_def)
  have b: "gps_stateNclock DEBUG wk2date delta_sec nav t state dt = (s2, state1, dt)"
    if "s1 = 0" "s2 \<noteq> 0"
    using dtsv(1) assms that by (simp add: gps_stateNclock_def Let_def)
  have c: "s1 = 1"
    if "ecef_tk DEBUG (sec ?toe) (stateNclock_t_sec ?toe t) = Some tk"
       "kepler_solve (nav_data nav ! 8) (mean_anomaly nav tk) = Inl 1" for tk
    using ecef(2) assms(1) that by simp
  have d: "s2 = 1"
    if "kepler_solve (nav_data nav ! 8)
          (mean_anomaly nav (dtsv_wrap (delta_sec t (nav_toc nav)))) = Inl 1"
    using dtsv(2) assms(2) that by simp
  from a b c d show ?thesis by blast
qed

theorem gps_stateNclock_propagates_witness:
  "gps_stateNclock False example_wk2date example_delta_sec (nav_example (pi / 2) (pi / 2))
       \<lparr>mjd = 44244, sec = 0\<rparr> [7, 8, 9] 5 = (1, [7, 8, 9], 5)
   \<and> gps_stateNclock False example_wk2date example_delta_sec nav_clock_cycle
       \<lparr>mjd = 44244, sec = 0\<rparr> [7, 8, 9] 5
       = (1, fst (snd (gps_ecef False nav_clock_cycle 0 0 [7, 8, 9] None)), 5)"
proof -
  let ?t = "\<lparr>mjd = 44244, sec = 0\<rparr>"
  let ?n = "nav_example (pi / 2) (pi / 2)"
  have e1: "gps_ecef False ?n (sec (gps__toe2date example_wk2date ?n))
      (stateNclock_t_sec (gps__toe2date example_wk2date ?n) ?t) [7, 8, 9] None
      = (1, [7, 8, 9], None)"
    using gps_example_fail [OF kepler_solve_pi_half, of False "[7, 8, 9]" None]
    by (simp add: toe_example stateNclock_t_sec_def)
  have d1: "gps_dtsv ?n (example_delta_sec ?t (nav_toc ?n)) 5 None
      = (fst (gps_dtsv ?n (example_delta_sec ?t (nav_toc ?n)) 5 None),
         snd (gps_dtsv ?n (example_delta_sec ?t (nav_toc ?n)) 5 None))"
    by simp
  have e2: "gps_ecef False nav_clock_cycle (sec (gps__toe2date example_wk2date nav_clock_cycle))
      (stateNclock_t_sec (gps__toe2date example_wk2date nav_clock_cycle) ?t) [7, 8, 9] None
      = (0, fst (snd (gps_ecef False nav_clock_cycle 0 0 [7, 8, 9] None)),
            snd (snd (gps_ecef False nav_clock_cycle 0 0 [7, 8, 9] None)))"
    using gps_ecef_clock_cycle [of "[7, 8, 9]"]
    by (simp add: toe_clock_cycle stateNclock_t_sec_def prod_eq_iff)
  have d2: "gps_dtsv nav_clock_cycle (example_delta_sec ?t (nav_toc nav_clock_cycle)) 5 None
      = (1, 5)"
    by (simp only: delta_clock_cycle gps_dtsv_clock_cycle)
  from gps_stateNclock_propagates
         [where wk2date = example_wk2date and delta_sec = example_delta_sec, OF e1 d1]
       gps_stateNclock_propagates
         [where wk2date = example_wk2date and delta_sec = example_delta_sec, OF e2 d2]
  show ?thesis by simp
qed

subsection \<open>C9: nothing is written when \<^verbatim>\<open>gps_ecef\<close> fails\<close>

text \<open>
  C9: when \<^verbatim>\<open>gps_ecef\<close> returns a status other than 0, the array \<open>state\<close> and the cell
  behind \<^verbatim>\<open>Ek_ptr\<close> hold what they held before the call.
\<close>

theorem gps_ecef_error_writes_nothing:
  assumes "gps_ecef DEBUG nav toe_sec t_sec state Ek_ptr = (status, state', Ek_ptr')"
      and "status \<noteq> 0"
  shows "state' = state \<and> Ek_ptr' = Ek_ptr"
  using assms gps_ecef_error_frame [of DEBUG nav toe_sec t_sec state Ek_ptr] by simp

theorem gps_ecef_error_writes_nothing_witness:
  "gps_ecef False (nav_example (pi / 2) (pi / 2)) 0 0 [7, 8, 9] (Some 5) = (1, [7, 8, 9], Some 5)
   \<and> gps_ecef True (nav_example 1 0) 0 400000 [7, 8, 9] (Some 5) = (- 1, [7, 8, 9], Some 5)"
proof -
  have h1: "gps_ecef False (nav_example (pi / 2) (pi / 2)) 0 0 [7, 8, 9] (Some 5)
       = (1, fst (snd (gps_ecef False (nav_example (pi / 2) (pi / 2)) 0 0 [7, 8, 9] (Some 5))),
             snd (snd (gps_ecef False (nav_example (pi / 2) (pi / 2)) 0 0 [7, 8, 9] (Some 5))))"
    using gps_example_fail [OF kepler_solve_pi_half, of False "[7, 8, 9]" "Some 5"] by simp
  have h2: "gps_ecef True (nav_example 1 0) 0 400000 [7, 8, 9] (Some 5)
       = (- 1, fst (snd (gps_ecef True (nav_example 1 0) 0 400000 [7, 8, 9] (Some 5))),
               snd (snd (gps_ecef True (nav_example 1 0) 0 400000 [7, 8, 9] (Some 5))))"
    by (simp add: gps_ecef_debug_reject)
  from gps_ecef_error_writes_nothing [OF h1] gps_ecef_error_writes_nothing [OF h2] h1 h2
  show ?thesis by simp
qed

subsection \<open>C10: \<^verbatim>\<open>gps_dtsv\<close> with a supplied eccentric anomaly\<close>

text \<open>
  C10: with a non-null \<^verbatim>\<open>Ein\<close>, \<^verbatim>\<open>gps_dtsv\<close> returns 0 for every record and every
  \<open>dt\<close>, and the bias it writes is the polynomial in the wrapped \<open>dt\<close> plus the
  relativistic term at \<^verbatim>\<open>*Ein\<close>; the Kepler loop has no part in the result.
\<close>

theorem gps_dtsv_Ein:
  "gps_dtsv nav dt dt_sv (Some Ein) =
     (0, nav_data nav ! 0 + nav_data nav ! 1 * dtsv_wrap dt
           + nav_data nav ! 2 * (dtsv_wrap dt)\<^sup>2
           + F_CLOCK * nav_data nav ! 8 * nav_data nav ! 10 * sin Ein)"
  by (simp add: gps_dtsv_def dtsv_bias_expanded Let_def)

end
